theory Spec2Isabelle
  imports Main
begin

section \<open>JavaScript values used by the frontend\<close>

text \<open>
  A value thrown by JavaScript code is either an \<^verbatim>\<open>Error\<close> instance carrying a
  message, or something that is not an \<^verbatim>\<open>Error\<close> instance. The frontend tells the two
  apart with \<^verbatim>\<open>instanceof Error\<close>.
\<close>

datatype thrown = Error string | NonError

text \<open>
  \<^verbatim>\<open>String.prototype.trim\<close>: white space and line terminators are removed from both
  ends. Strings are lists of 8-bit code units here, so the white space of ECMAScript that
  lies below 256 is listed: TAB, LF, VT, FF, CR, SP and NBSP.
\<close>

definition is_ws :: "char \<Rightarrow> bool" where
  "is_ws c = (c \<in> {CHR 0x09, CHR 0x0A, CHR 0x0B, CHR 0x0C, CHR 0x0D, CHR 0x20, CHR 0xA0})"

definition trim :: "string \<Rightarrow> string" where
  "trim s = rev (dropWhile is_ws (rev (dropWhile is_ws s)))"

text \<open>Truthiness of \<^verbatim>\<open>string | null | undefined\<close>: only a non-empty string is truthy.\<close>

definition truthy :: "string option \<Rightarrow> bool" where
  "truthy v = (case v of None \<Rightarrow> False | Some s \<Rightarrow> s \<noteq> [])"

text \<open>\<^verbatim>\<open>a || b\<close> on an optional string and a default string.\<close>

definition or_else :: "string option \<Rightarrow> string \<Rightarrow> string" where
  "or_else v d = (case v of None \<Rightarrow> d | Some s \<Rightarrow> if s = [] then d else s)"

section \<open>The API client (class KubeFreezerAPI, frontend/src/pages/History.tsx, lines 103--297)\<close>

text \<open>
  The client's state: the private field \<^verbatim>\<open>token\<close> and the \<^verbatim>\<open>localStorage\<close> item
  \<^verbatim>\<open>kubefreezer_token\<close> (\<open>None\<close> is \<^verbatim>\<open>null\<close>).
\<close>

record KubeFreezerAPI =
  token :: "string option"
  localStorage :: "string option"

definition getApiBase :: string where
  "getApiBase = ''/api/v1''"

text \<open>The constructor loads the token from \<^verbatim>\<open>localStorage\<close>.\<close>

definition constructor :: "string option \<Rightarrow> KubeFreezerAPI" where
  "constructor item = \<lparr>token = item, localStorage = item\<rparr>"

definition setToken :: "KubeFreezerAPI \<Rightarrow> string \<Rightarrow> KubeFreezerAPI" where
  "setToken st tok =
     (let trimmedToken = trim tok
      in st\<lparr>token := Some trimmedToken, localStorage := Some trimmedToken\<rparr>)"

definition getToken :: "KubeFreezerAPI \<Rightarrow> string option" where
  "getToken st =
     (let tok = (if truthy (token st) then token st else localStorage st)
      in if truthy tok then map_option trim tok else None)"

definition clearToken :: "KubeFreezerAPI \<Rightarrow> KubeFreezerAPI" where
  "clearToken st = st\<lparr>token := None, localStorage := None\<rparr>"

definition isAuthenticated :: "KubeFreezerAPI \<Rightarrow> bool" where
  "isAuthenticated st = truthy (getToken st)"

text \<open>
  What \<^verbatim>\<open>fetch\<close> is called with and what it gives back. The body of a call is kept as
  the object that \<^verbatim>\<open>JSON.stringify\<close> is applied to (\<open>None\<close>: no body). A response has a
  status, a status text and the outcome of \<^verbatim>\<open>response.json()\<close>, which either rejects or
  yields a JSON object, of which the client reads the members \<^verbatim>\<open>detail\<close> and \<^verbatim>\<open>data\<close>
  (\<open>None\<close>: the member is missing or \<^verbatim>\<open>null\<close>). \<^verbatim>\<open>fetch\<close> itself either rejects
  or resolves to a response.
\<close>

record 'b request_init =
  http_method :: "string option"
  headers :: "string \<rightharpoonup> string"
  body :: "'b option"

record 'a json_body =
  detail :: "string option"
  data :: "'a option"

record 'a response =
  status :: nat
  statusText :: string
  json :: "thrown + 'a json_body"

datatype 'a fetch_result = Rejected thrown | Resolved "'a response"

type_synonym ('b, 'a) fetch = "string \<Rightarrow> 'b request_init \<Rightarrow> 'a fetch_result"

text \<open>\<^verbatim>\<open>response.ok\<close>: the status is in the range 200 to 299.\<close>

definition ok :: "'a response \<Rightarrow> bool" where
  "ok r = (200 \<le> status r \<and> status r \<le> 299)"

text \<open>
  The \<^verbatim>\<open>catch\<close> block of \<^verbatim>\<open>request\<close>: an \<^verbatim>\<open>Error\<close> instance is thrown again as it is,
  anything else becomes \<^verbatim>\<open>Error('Network error')\<close>.
\<close>

definition rethrow :: "thrown \<Rightarrow> thrown" where
  "rethrow e = (case e of Error m \<Rightarrow> Error m | NonError \<Rightarrow> Error ''Network error'')"

text \<open>
  The first lines of \<^verbatim>\<open>request\<close>: the headers are \<^verbatim>\<open>Content-Type\<close>, then the
  caller's headers, then \<^verbatim>\<open>Authorization\<close> when \<^verbatim>\<open>getToken()\<close> is truthy; the
  options passed to \<^verbatim>\<open>fetch\<close> are the caller's with these headers.
\<close>

definition fetch_options :: "KubeFreezerAPI \<Rightarrow> 'b request_init \<Rightarrow> 'b request_init" where
  "fetch_options st options =
     (let tok = getToken st;
          hs = [''Content-Type'' \<mapsto> ''application/json''] ++ headers options
      in options\<lparr>headers :=
           (if truthy tok then hs(''Authorization'' \<mapsto> ''Bearer '' @ the tok) else hs)\<rparr>)"

text \<open>
  \<^verbatim>\<open>request\<close> returns the thrown value or \<^verbatim>\<open>data.data\<close>, and the client's state after
  the call. Every value thrown inside the \<^verbatim>\<open>try\<close> block passes through the
  \<^verbatim>\<open>catch\<close> block.
\<close>

definition request ::
  "('b, 'a) fetch \<Rightarrow> KubeFreezerAPI \<Rightarrow> string \<Rightarrow> 'b request_init
     \<Rightarrow> (thrown + 'a option) \<times> KubeFreezerAPI" where
  "request fetch st endpoint options =
     (case fetch (getApiBase @ endpoint) (fetch_options st options) of
        Rejected e \<Rightarrow> (Inl (rethrow e), st)
      | Resolved r \<Rightarrow>
          if status r = 401 then
            (Inl (rethrow (Error ''Authentication required'')), clearToken st)
          else if status r = 403 then
            (let d = (case json r of Inl _ \<Rightarrow> Some ''Forbidden'' | Inr b \<Rightarrow> detail b)
             in (Inl (rethrow (Error (or_else d ''Access forbidden''))), st))
          else if \<not> ok r then
            (let d = (case json r of Inl _ \<Rightarrow> Some ''Request failed'' | Inr b \<Rightarrow> detail b)
             in (Inl (rethrow (Error (or_else d (''Request failed: '' @ statusText r)))), st))
          else
            (case json r of
               Inl e \<Rightarrow> (Inl (rethrow e), st)
             | Inr b \<Rightarrow> (Inr (data b), st)))"

text \<open>The options of a call without a second argument (\<^verbatim>\<open>options = {}\<close>).\<close>

definition no_options :: "'b request_init" where
  "no_options = \<lparr>http_method = None, headers = Map.empty, body = None\<rparr>"

definition post :: "'b \<Rightarrow> 'b request_init" where
  "post b = \<lparr>http_method = Some ''POST'', headers = Map.empty, body = Some b\<rparr>"

text \<open>
  The payload of a list endpoint: \<^verbatim>\<open>data.data\<close> is an array, or an object whose
  \<^verbatim>\<open>data\<close> member is an array or is missing.
\<close>

datatype 'e listing = Arr "'e list" | Wrapped "'e list option"

text \<open>
  \<^verbatim>\<open>Array.isArray(response) ? response : (response as any).data || []\<close>. Reading
  \<^verbatim>\<open>.data\<close> of \<^verbatim>\<open>undefined\<close> throws a \<^verbatim>\<open>TypeError\<close>, outside the \<^verbatim>\<open>try\<close> of
  \<^verbatim>\<open>request\<close>.
\<close>

definition unwrap_listing :: "'e listing option \<Rightarrow> thrown + 'e list" where
  "unwrap_listing response =
     (case response of
        None \<Rightarrow> Inl (Error ''Cannot read properties of undefined (reading 'data')'')
      | Some (Arr xs) \<Rightarrow> Inr xs
      | Some (Wrapped None) \<Rightarrow> Inr []
      | Some (Wrapped (Some xs)) \<Rightarrow> Inr xs)"

definition getExemptions ::
  "(unit, 'e listing) fetch \<Rightarrow> KubeFreezerAPI \<Rightarrow> (thrown + 'e list) \<times> KubeFreezerAPI" where
  "getExemptions fetch st =
     (case request fetch st ''/freeze/exemptions'' no_options of
        (Inl e, st') \<Rightarrow> (Inl e, st')
      | (Inr response, st') \<Rightarrow> (unwrap_listing response, st'))"

section \<open>Authentication (frontend/src/services/auth.ts)\<close>

definition validateApiKey ::
  "(unit, 'e listing) fetch \<Rightarrow> KubeFreezerAPI \<Rightarrow> string \<Rightarrow> bool \<times> KubeFreezerAPI" where
  "validateApiKey fetch st apiKey =
     (let trimmedKey = trim apiKey;
          st1 = setToken st trimmedKey
      in case getExemptions fetch st1 of
           (Inr _, st2) \<Rightarrow> (True, st2)
         | (Inl _, st2) \<Rightarrow> (False, st2))"

definition login ::
  "(unit, 'e listing) fetch \<Rightarrow> KubeFreezerAPI \<Rightarrow> string \<Rightarrow> bool \<times> KubeFreezerAPI" where
  "login fetch st apiKey =
     (let trimmedKey = trim apiKey
      in case validateApiKey fetch st trimmedKey of
           (True, st1) \<Rightarrow> (True, setToken st1 trimmedKey)
         | (False, st1) \<Rightarrow> (False, st1))"

definition logout :: "KubeFreezerAPI \<Rightarrow> KubeFreezerAPI" where
  "logout st = clearToken st"

section \<open>The data model of the frontend (frontend/README.md, lines 102--207)\<close>

record ExemptionCreateRequest =
  namespace :: string
  resource_name :: "string option"
  duration_minutes :: int
  reason :: string
  approved_by :: string

text \<open>
  An exemption has the fields of a creation request and the ones the backend adds. The
  frontend receives the two instants as strings; the type of instants is a parameter.
\<close>

record 't Exemption = ExemptionCreateRequest +
  exemption_id :: string
  created_at :: 't
  expires_at :: 't
  used :: bool

text \<open>The field \<^verbatim>\<open>end\<close> of a schedule is called \<open>end_at\<close> here.\<close>

record Schedule =
  name :: string
  start :: string
  end_at :: string
  cron :: string
  namespaces :: "string list option"
  message :: "string option"

text \<open>\<^verbatim>\<open>{ template_name, parameters: { override_schedule } }\<close>\<close>

record TemplateApplyRequest =
  template_name :: string
  override_schedule :: Schedule

definition createExemption ::
  "(ExemptionCreateRequest, 'e) fetch \<Rightarrow> KubeFreezerAPI \<Rightarrow> ExemptionCreateRequest
     \<Rightarrow> (thrown + 'e option) \<times> KubeFreezerAPI" where
  "createExemption fetch st req = request fetch st ''/freeze/exemptions'' (post req)"

text \<open>
  The payload of \<^verbatim>\<open>/freeze/templates/apply\<close>: a schedule, or an object with a
  \<^verbatim>\<open>data\<close> member. \<^verbatim>\<open>'data' in response\<close> throws a \<^verbatim>\<open>TypeError\<close> when the response is
  \<^verbatim>\<open>undefined\<close>; a wrapper with a truthy \<^verbatim>\<open>data\<close> is unwrapped, anything else is
  returned as it is.
\<close>

datatype 's applied = Plain 's | Wrapper "'s option"

definition applyTemplate ::
  "(TemplateApplyRequest, 's applied) fetch \<Rightarrow> KubeFreezerAPI \<Rightarrow> TemplateApplyRequest
     \<Rightarrow> (thrown + 's applied) \<times> KubeFreezerAPI" where
  "applyTemplate fetch st req =
     (case request fetch st ''/freeze/templates/apply'' (post req) of
        (Inl e, st') \<Rightarrow> (Inl e, st')
      | (Inr None, st') \<Rightarrow>
          (Inl (Error ''Cannot use 'in' operator to search for 'data' in undefined''), st')
      | (Inr (Some (Wrapper (Some s))), st') \<Rightarrow> (Inr (Plain s), st')
      | (Inr (Some response), st') \<Rightarrow> (Inr response, st'))"

section \<open>The exemption form (CreateExemptionModal, frontend/src/pages/Login.tsx, lines 258--433)\<close>

text \<open>
  \<^verbatim>\<open>parseInt\<close> with no radix: leading white space is skipped, a sign is read, a prefix
  \<^verbatim>\<open>0x\<close> or \<^verbatim>\<open>0X\<close> selects radix 16, and the longest prefix of digits is the value;
  with no digit the result is \<^verbatim>\<open>NaN\<close> (\<open>None\<close>). The value is an unbounded integer
  here (JavaScript rounds it to a double, which keeps its sign and whether it is zero;
  \<^verbatim>\<open>-0\<close> is \<open>0\<close>).
\<close>

definition digit_of :: "nat \<Rightarrow> char \<Rightarrow> nat option" where
  "digit_of R c =
     (let n = (of_char c :: nat);
          v = (if 48 \<le> n \<and> n \<le> 57 then Some (n - 48)
               else if 97 \<le> n \<and> n \<le> 122 then Some (n - 87)
               else if 65 \<le> n \<and> n \<le> 90 then Some (n - 55)
               else None)
      in case v of None \<Rightarrow> None | Some d \<Rightarrow> if d < R then Some d else None)"

definition parseInt :: "string \<Rightarrow> int option" where
  "parseInt s =
     (let S = dropWhile is_ws s;
          sign = (case S of c # _ \<Rightarrow> if c = CHR ''-'' then - 1 else (1::int) | [] \<Rightarrow> 1);
          S1 = (case S of c # cs \<Rightarrow> if c = CHR ''-'' \<or> c = CHR ''+'' then cs else S | [] \<Rightarrow> S);
          hex = (case S1 of a # b # _ \<Rightarrow> a = CHR ''0'' \<and> (b = CHR ''x'' \<or> b = CHR ''X'')
                 | _ \<Rightarrow> False);
          R = (if hex then 16 else 10);
          S2 = (if hex then drop 2 S1 else S1);
          Z = takeWhile (\<lambda>c. digit_of R c \<noteq> None) S2
      in if Z = [] then None
         else Some (sign * int (foldl (\<lambda>acc c. acc * R + the (digit_of R c)) 0 Z)))"

text \<open>The state of the form (\<^verbatim>\<open>useState\<close>), with its initial values.\<close>

record CreateExemptionModal =
  ce_loading :: bool
  ce_error :: "string option"
  ce_namespace :: string
  ce_resourceName :: string
  ce_durationMinutes :: int
  ce_reason :: string
  ce_approvedBy :: string

definition CreateExemptionModal_init :: CreateExemptionModal where
  "CreateExemptionModal_init =
     \<lparr>ce_loading = False, ce_error = None, ce_namespace = [], ce_resourceName = [],
      ce_durationMinutes = 60, ce_reason = [], ce_approvedBy = []\<rparr>"

text \<open>
  The \<^verbatim>\<open>onChange\<close> handler of the duration input:
  \<^verbatim>\<open>setDurationMinutes(parseInt(e.target.value) || 60)\<close>.
\<close>

definition onChange_durationMinutes :: "CreateExemptionModal \<Rightarrow> string \<Rightarrow> CreateExemptionModal" where
  "onChange_durationMinutes f v =
     f\<lparr>ce_durationMinutes :=
         (case parseInt v of None \<Rightarrow> 60 | Some n \<Rightarrow> if n = 0 then 60 else n)\<rparr>"

text \<open>
  The \<^verbatim>\<open>onChange\<close> handlers of the five inputs; the other four store the value of the
  input as it is. A form is reached from the initial one by a sequence of such events.
\<close>

datatype input_event =
  NamespaceInput string | ResourceNameInput string | DurationInput string |
  ReasonInput string | ApprovedByInput string

fun onChange :: "CreateExemptionModal \<Rightarrow> input_event \<Rightarrow> CreateExemptionModal" where
  "onChange f (NamespaceInput v) = f\<lparr>ce_namespace := v\<rparr>"
| "onChange f (ResourceNameInput v) = f\<lparr>ce_resourceName := v\<rparr>"
| "onChange f (DurationInput v) = onChange_durationMinutes f v"
| "onChange f (ReasonInput v) = f\<lparr>ce_reason := v\<rparr>"
| "onChange f (ApprovedByInput v) = f\<lparr>ce_approvedBy := v\<rparr>"

definition after_inputs :: "input_event list \<Rightarrow> CreateExemptionModal" where
  "after_inputs evs = foldl onChange CreateExemptionModal_init evs"

text \<open>
  \<^verbatim>\<open>handleSubmit\<close>, the \<^verbatim>\<open>try\<close> block before the API call: the four checks in their
  order, then the request object. The spread
  \<^verbatim>\<open>...(resourceName.trim() && { resource_name: resourceName.trim() })\<close>
  adds the member only when the trimmed name is truthy.
\<close>

definition CreateExemptionModal_request :: "CreateExemptionModal \<Rightarrow> thrown + ExemptionCreateRequest" where
  "CreateExemptionModal_request f =
     (if trim (ce_namespace f) = [] then Inl (Error ''Namespace is required'')
      else if trim (ce_reason f) = [] then Inl (Error ''Reason is required'')
      else if trim (ce_approvedBy f) = [] then Inl (Error ''Approved by is required'')
      else if ce_durationMinutes f < 1 then Inl (Error ''Duration must be at least 1 minute'')
      else Inr \<lparr>namespace = trim (ce_namespace f),
                resource_name =
                  (if trim (ce_resourceName f) = [] then None
                   else Some (trim (ce_resourceName f))),
                duration_minutes = ce_durationMinutes f,
                reason = trim (ce_reason f),
                approved_by = trim (ce_approvedBy f)\<rparr>)"

text \<open>
  \<^verbatim>\<open>err instanceof Error ? err.message : fallback\<close>, the message shown by a
  \<^verbatim>\<open>catch\<close> block.
\<close>

definition message_of :: "thrown \<Rightarrow> string \<Rightarrow> string" where
  "message_of e fallback = (case e of Error m \<Rightarrow> m | NonError \<Rightarrow> fallback)"

text \<open>
  \<^verbatim>\<open>handleSubmit\<close> as a whole. The result says whether \<^verbatim>\<open>onSuccess\<close> and
  \<^verbatim>\<open>onClose\<close> were called, and gives the form and the client afterwards.
\<close>

definition CreateExemptionModal_handleSubmit ::
  "(ExemptionCreateRequest, 'e) fetch \<Rightarrow> KubeFreezerAPI \<Rightarrow> CreateExemptionModal
     \<Rightarrow> bool \<times> CreateExemptionModal \<times> KubeFreezerAPI" where
  "CreateExemptionModal_handleSubmit fetch st f =
     (let f1 = f\<lparr>ce_error := None, ce_loading := True\<rparr>
      in case CreateExemptionModal_request f1 of
           Inl e \<Rightarrow>
             (False,
              f1\<lparr>ce_error := Some (message_of e ''Failed to create exemption''),
                 ce_loading := False\<rparr>, st)
         | Inr req \<Rightarrow>
             (case createExemption fetch st req of
                (Inl e, st') \<Rightarrow>
                  (False,
                   f1\<lparr>ce_error := Some (message_of e ''Failed to create exemption''),
                      ce_loading := False\<rparr>, st')
              | (Inr _, st') \<Rightarrow> (True, f1\<lparr>ce_loading := False\<rparr>, st')))"

section \<open>The status of an exemption (Exemptions, frontend/src/pages/Login.tsx, lines 599--608)\<close>

text \<open>
  \<^verbatim>\<open>exemption.used ? 'Used' : new Date(exemption.expires_at) > new Date() ? 'Active' : 'Expired'\<close>.
  The \<^verbatim>\<open>Date\<close> constructor on a string is a parameter: it gives the time value in
  milliseconds, or \<open>None\<close> for an invalid date, whose time value \<^verbatim>\<open>NaN\<close> compares false.
  \<open>now\<close> is the time value of \<^verbatim>\<open>new Date()\<close>.
\<close>

datatype status_label = Used | Active | Expired

definition Exemptions_status :: "(string \<Rightarrow> int option) \<Rightarrow> int \<Rightarrow> string Exemption \<Rightarrow> status_label" where
  "Exemptions_status Date now exemption =
     (if used exemption then Used
      else if (case Date (expires_at exemption) of None \<Rightarrow> False | Some t \<Rightarrow> t > now)
      then Active else Expired)"

section \<open>The schedule form (ApplyTemplateModal, frontend/src/pages/Login.tsx, lines 647--803)\<close>

text \<open>
  The state of the form and the name of the template it was opened for. Of JavaScript's
  \<^verbatim>\<open>Date\<close> two operations are parameters: the constructor on a string (the time
  value, or \<open>None\<close> for an invalid date) and \<^verbatim>\<open>toISOString\<close>.
\<close>

record ApplyTemplateModal =
  at_template_name :: string
  at_loading :: bool
  at_error :: "string option"
  at_scheduleName :: string
  at_startDate :: string
  at_startTime :: string
  at_endDate :: string
  at_endTime :: string
  at_cron :: string
  at_namespaces :: "string list"
  at_message :: string

text \<open>
  \<^verbatim>\<open>handleSubmit\<close>, the \<^verbatim>\<open>try\<close> block before the API call: the checks in their order,
  then the schedule object.
\<close>

definition ApplyTemplateModal_schedule ::
  "(string \<Rightarrow> int option) \<Rightarrow> (int \<Rightarrow> string) \<Rightarrow> ApplyTemplateModal \<Rightarrow> thrown + Schedule" where
  "ApplyTemplateModal_schedule Date toISOString f =
     (if at_startDate f = [] \<or> at_startTime f = [] then
        Inl (Error ''Start date and time are required'')
      else if at_endDate f = [] \<or> at_endTime f = [] then
        Inl (Error ''End date and time are required'')
      else
        (let startDateTime = Date (at_startDate f @ ''T'' @ at_startTime f @ '':00'');
             endDateTime = Date (at_endDate f @ ''T'' @ at_endTime f @ '':00'')
         in case startDateTime of
              None \<Rightarrow> Inl (Error ''Invalid start date/time values'')
            | Some s \<Rightarrow>
                (case endDateTime of
                   None \<Rightarrow> Inl (Error ''Invalid end date/time values'')
                 | Some e \<Rightarrow>
                     if e \<le> s then Inl (Error ''End date/time must be after start date/time'')
                     else if at_cron f = [] then Inl (Error ''Cron expression is required'')
                     else Inr \<lparr>name = at_scheduleName f,
                               start = toISOString s,
                               end_at = toISOString e,
                               cron = at_cron f,
                               namespaces =
                                 (if length (at_namespaces f) > 0 then Some (at_namespaces f)
                                  else None),
                               message =
                                 (if at_message f = [] then None
                                  else Some (at_message f))\<rparr>)))"

definition ApplyTemplateModal_handleSubmit ::
  "(string \<Rightarrow> int option) \<Rightarrow> (int \<Rightarrow> string) \<Rightarrow> (TemplateApplyRequest, 's applied) fetch
     \<Rightarrow> KubeFreezerAPI \<Rightarrow> ApplyTemplateModal \<Rightarrow> bool \<times> ApplyTemplateModal \<times> KubeFreezerAPI" where
  "ApplyTemplateModal_handleSubmit Date toISOString fetch st f =
     (let f1 = f\<lparr>at_error := None, at_loading := True\<rparr>
      in case ApplyTemplateModal_schedule Date toISOString f1 of
           Inl e \<Rightarrow>
             (False,
              f1\<lparr>at_error := Some (message_of e ''Failed to apply template''),
                 at_loading := False\<rparr>, st)
         | Inr schedule \<Rightarrow>
             (case applyTemplate fetch st
                     \<lparr>template_name = at_template_name f1, override_schedule = schedule\<rparr> of
                (Inl e, st') \<Rightarrow>
                  (False,
                   f1\<lparr>at_error := Some (message_of e ''Failed to apply template''),
                      at_loading := False\<rparr>, st')
              | (Inr _, st') \<Rightarrow> (True, f1\<lparr>at_loading := False\<rparr>, st')))"

section \<open>The backend's exemption store and policy evaluator\<close>

text \<open>
  The backend is not among the sources; the exemption store's matcher and the policy
  evaluator are defined here as the specification describes them.
\<close>

text \<open>
  Modelled from the spec: the exemption store of the backend, which is not among the
  sources; here the condition of its matcher (section 4.4),
  \<open>matches(namespace, resourceName?, now)\<close>. The store is the list of its
  exemptions in iteration order. An exemption can match when its namespace is the
  request's, its resource name is absent or equal to the request's, and it is not a
  resource-specific exemption that has been used.
\<close>

definition can_match :: "string \<Rightarrow> string option \<Rightarrow> int Exemption \<Rightarrow> bool" where
  "can_match ns rn e =
     (namespace e = ns \<and> (resource_name e = None \<or> resource_name e = rn) \<and>
      \<not> (resource_name e \<noteq> None \<and> used e))"

text \<open>
  Modelled from the spec: the search of the matcher, missing with the store. The first
  exemption that can match is returned; a resource-specific one is marked \<open>used\<close> in
  the same step, a namespace-wide one is left as it is.
\<close>

fun match_first ::
  "string \<Rightarrow> string option \<Rightarrow> int Exemption list \<Rightarrow> int Exemption option \<times> int Exemption list" where
  "match_first ns rn [] = (None, [])"
| "match_first ns rn (e # es) =
     (if can_match ns rn e then
        (if resource_name e = None then (Some e, e # es)
         else (Some (e\<lparr>used := True\<rparr>), e\<lparr>used := True\<rparr> # es))
      else (case match_first ns rn es of (r, es') \<Rightarrow> (r, e # es')))"

text \<open>
  Modelled from the spec: the operation \<open>matches\<close> of the missing store. Expired
  exemptions (\<open>expires_at \<le> now\<close>) are skipped and dropped at query time; the result
  is the match, if any, and the store afterwards.
\<close>

definition matches ::
  "int Exemption list \<Rightarrow> string \<Rightarrow> string option \<Rightarrow> int
     \<Rightarrow> int Exemption option \<times> int Exemption list" where
  "matches store ns rn now = match_first ns rn (filter (\<lambda>e. \<not> expires_at e \<le> now) store)"

text \<open>
  A sequence of match queries, each with its namespace, resource name and instant, run
  against the store one after the other; the results in order.
\<close>

fun match_queries ::
  "int Exemption list \<Rightarrow> (string \<times> string option \<times> int) list \<Rightarrow> int Exemption option list" where
  "match_queries store [] = []"
| "match_queries store ((ns, rn, now) # qs) =
     (case matches store ns rn now of (r, store') \<Rightarrow> r # match_queries store' qs)"

text \<open>A result is a match of the resource-specific exemption with identifier \<open>i\<close>.\<close>

definition returns_specific :: "string \<Rightarrow> int Exemption option \<Rightarrow> bool" where
  "returns_specific i r =
     (case r of None \<Rightarrow> False | Some e \<Rightarrow> exemption_id e = i \<and> resource_name e \<noteq> None)"

text \<open>
  Modelled from the spec: the policy evaluator of the backend, which is not among the
  sources; here the policy configuration (section 3) and the evaluator's input and output
  (section 4.7).
\<close>

record Config =
  freeze_enabled :: bool
  freeze_until :: "int option"
  freeze_message :: string
  bypass_annotation_key :: string
  bypass_allowed_users :: "string set"
  bypass_exempt_namespaces :: "string set"
  monitored_kinds :: "string set"
  fail_closed :: bool

datatype Operation = CREATE | UPDATE | DELETE | CONNECT

record AdmissionRequest =
  req_kind :: string
  req_namespace :: string
  req_resourceName :: "string option"
  req_user :: string
  req_groups :: "string list"
  req_annotations :: "string \<rightharpoonup> string"
  req_operation :: Operation

datatype Category =
  NOT_MONITORED | BYPASS_ANNOTATION | BYPASS_USER | BYPASS_NAMESPACE | BYPASS_EXEMPTION |
  FROZEN | NO_FREEZE | INTERNAL_ERROR

record Decision =
  allow :: bool
  decision_reason :: string
  category :: Category

text \<open>
  Modelled from the spec: what the evaluator consults. The schedule engine is its
  operation \<open>isActive(instant, namespace)\<close>, giving whether a freeze is active and the
  message composed from the matching schedules; \<open>clock\<close> is the instant \<open>now()\<close>. The
  exemption store is \<open>None\<close> when it is unavailable.
\<close>

record Policy =
  config :: Config
  isActive :: "int \<Rightarrow> string \<Rightarrow> bool \<times> string"
  clock :: int

type_synonym ExemptionStore = "int Exemption list option"

text \<open>
  Modelled from the spec: a step of the algorithm does not fire (\<open>Pass\<close>), fires with a
  decision, or throws; it may change the exemption store. Reasons that the specification
  leaves open are the empty string.
\<close>

datatype step_result = Pass | Fire Decision | Throw

type_synonym step = "Policy \<Rightarrow> ExemptionStore \<Rightarrow> AdmissionRequest \<Rightarrow> step_result \<times> ExemptionStore"

definition allowed :: "Category \<Rightarrow> string \<Rightarrow> step_result" where
  "allowed c why = Fire \<lparr>allow = True, decision_reason = why, category = c\<rparr>"

text \<open>
  Modelled from the spec: an annotation value is truthy when it is \<open>true\<close>, compared
  without regard to (ASCII) case; the companion annotation holds the reason.
\<close>

definition lower :: "char \<Rightarrow> char" where
  "lower c = (let n = (of_char c :: nat) in if 65 \<le> n \<and> n \<le> 90 then char_of (n + 32) else c)"

definition is_true :: "string option \<Rightarrow> bool" where
  "is_true v = (case v of None \<Rightarrow> False | Some s \<Rightarrow> map lower s = ''true'')"

definition bypass_reason_key :: string where
  "bypass_reason_key = ''admission-controller.io/emergency-reason''"

text \<open>
  Modelled from the spec: the eight steps of the missing evaluator's algorithm
  (section 4.7), each terminal when it fires.
\<close>

definition kind_filter :: step where
  "kind_filter p store r =
     (if req_kind r \<notin> monitored_kinds (config p) then (allowed NOT_MONITORED [], store)
      else (Pass, store))"

definition operation_filter :: step where
  "operation_filter p store r =
     (if req_operation r \<noteq> CREATE \<and> req_operation r \<noteq> UPDATE
      then (allowed NOT_MONITORED [], store) else (Pass, store))"

definition annotation_bypass :: step where
  "annotation_bypass p store r =
     (if is_true (req_annotations r (bypass_annotation_key (config p)))
      then (allowed BYPASS_ANNOTATION
              (case req_annotations r bypass_reason_key of None \<Rightarrow> [] | Some why \<Rightarrow> why), store)
      else (Pass, store))"

definition user_allowlist :: step where
  "user_allowlist p store r =
     (if req_user r \<in> bypass_allowed_users (config p) \<or>
         (\<exists>g \<in> set (req_groups r). g \<in> bypass_allowed_users (config p))
      then (allowed BYPASS_USER [], store) else (Pass, store))"

definition namespace_exemption :: step where
  "namespace_exemption p store r =
     (if req_namespace r \<in> bypass_exempt_namespaces (config p)
      then (allowed BYPASS_NAMESPACE [], store) else (Pass, store))"

definition temporary_exemption :: step where
  "temporary_exemption p store r =
     (case store of
        None \<Rightarrow> (Throw, store)
      | Some es \<Rightarrow>
          (case matches es (req_namespace r) (req_resourceName r) (clock p) of
             (None, es') \<Rightarrow> (Pass, Some es')
           | (Some e, es') \<Rightarrow> (allowed BYPASS_EXEMPTION [], Some es')))"

definition active_freeze_check :: step where
  "active_freeze_check p store r =
     (case isActive p (clock p) (req_namespace r) of
        (True, msg) \<Rightarrow>
          (Fire \<lparr>allow = False, decision_reason = msg, category = FROZEN\<rparr>, store)
      | (False, _) \<Rightarrow> (Pass, store))"

definition default_allow :: step where
  "default_allow p store r = (allowed NO_FREEZE [], store)"

text \<open>
  Modelled from the spec: the steps in the order of the algorithm, and their evaluation:
  the first step that does not pass ends it.
\<close>

definition steps :: "step list" where
  "steps = [kind_filter, operation_filter, annotation_bypass, user_allowlist,
            namespace_exemption, temporary_exemption, active_freeze_check, default_allow]"

fun run_steps :: "step list \<Rightarrow> step" where
  "run_steps [] p store r = (Pass, store)"
| "run_steps (s # ss) p store r =
     (case s p store r of
        (Pass, store') \<Rightarrow> run_steps ss p store' r
      | (res, store') \<Rightarrow> (res, store'))"

text \<open>
  Modelled from the spec: the evaluator. A step that throws gives the decision of the
  fail-closed rule, with category \<open>INTERNAL_ERROR\<close>.
\<close>

definition evaluate :: "Policy \<Rightarrow> ExemptionStore \<Rightarrow> AdmissionRequest \<Rightarrow> Decision \<times> ExemptionStore" where
  "evaluate p store r =
     (case run_steps steps p store r of
        (Fire d, store') \<Rightarrow> (d, store')
      | (Throw, store') \<Rightarrow>
          (\<lparr>allow = \<not> fail_closed (config p), decision_reason = [], category = INTERNAL_ERROR\<rparr>,
           store')
      | (Pass, store') \<Rightarrow>
          (\<lparr>allow = True, decision_reason = [], category = NO_FREEZE\<rparr>, store'))"

section \<open>Notions and examples used in the properties\<close>

text \<open>A server that answers every call with the same response.\<close>

definition always :: "'a response \<Rightarrow> ('b, 'a) fetch" where
  "always r url opts = Resolved r"

text \<open>
  A \<^verbatim>\<open>toISOString\<close> given by a table (the empty string outside it); a \<^verbatim>\<open>Date\<close>
  constructor given by a table is \<open>map_of\<close> of the table.
\<close>

definition iso_table :: "(int \<times> string) list \<Rightarrow> int \<Rightarrow> string" where
  "iso_table t v = (case map_of t v of None \<Rightarrow> [] | Some s \<Rightarrow> s)"

text \<open>
  A schedule form for the holiday window of 2025, 24 December 00:00 to 26 December 23:59,
  with a cron expression, and a \<^verbatim>\<open>Date\<close> and a \<^verbatim>\<open>toISOString\<close> that know the two
  instants (local time is UTC).
\<close>

definition holiday_form :: ApplyTemplateModal where
  "holiday_form =
     \<lparr>at_template_name = ''holiday'', at_loading = False, at_error = None,
      at_scheduleName = ''Schedule from holiday'',
      at_startDate = ''2025-12-24'', at_startTime = ''00:00'',
      at_endDate = ''2025-12-26'', at_endTime = ''23:59'',
      at_cron = ''0 22 * * *'', at_namespaces = [], at_message = []\<rparr>"

definition holiday_Date :: "string \<Rightarrow> int option" where
  "holiday_Date =
     map_of [(''2025-12-24T00:00:00'', 1766534400000), (''2025-12-26T23:59:00'', 1766793540000)]"

definition holiday_toISOString :: "int \<Rightarrow> string" where
  "holiday_toISOString =
     iso_table [(1766534400000, ''2025-12-24T00:00:00.000Z''),
                (1766793540000, ''2025-12-26T23:59:00.000Z'')]"

text \<open>
  An exemption for the resource \<open>web\<close> in \<open>prod\<close>, created at instant 0 for 60 minutes
  (instants in milliseconds).
\<close>

definition web_exemption :: "int Exemption" where
  "web_exemption =
     \<lparr>namespace = ''prod'', resource_name = Some ''web'', duration_minutes = 60,
      reason = ''patch'', approved_by = ''alice'', exemption_id = ''e1'',
      created_at = 0, expires_at = 3600000, used = False\<rparr>"

text \<open>
  A policy under which a freeze is active at every instant and in every namespace, and a
  request to update the deployment \<open>web\<close> that carries the bypass annotation.
\<close>

definition frozen_policy :: Policy where
  "frozen_policy =
     \<lparr>config =
        \<lparr>freeze_enabled = False, freeze_until = None, freeze_message = ''frozen'',
         bypass_annotation_key = ''admission-controller.io/emergency-bypass'',
         bypass_allowed_users = {}, bypass_exempt_namespaces = {},
         monitored_kinds = {''Deployment''}, fail_closed = True\<rparr>,
      isActive = (\<lambda>t ns. (True, ''holiday'')),
      clock = 1766656800000\<rparr>"

definition bypass_request :: AdmissionRequest where
  "bypass_request =
     \<lparr>req_kind = ''Deployment'', req_namespace = ''prod'', req_resourceName = Some ''web'',
      req_user = ''alice'', req_groups = [],
      req_annotations = [''admission-controller.io/emergency-bypass'' \<mapsto> ''True''],
      req_operation = UPDATE\<rparr>"

text \<open>
  In a store, the resource-specific exemption with identifier \<open>i\<close> is spent: every
  exemption with this identifier is resource-specific and used.
\<close>

definition spent :: "string \<Rightarrow> int Exemption list \<Rightarrow> bool" where
  "spent i es = (\<forall>x \<in> set es. exemption_id x = i \<longrightarrow> resource_name x \<noteq> None \<and> used x)"

text \<open>The response to a call was an HTTP 401.\<close>

definition unauthorized :: "'a fetch_result \<Rightarrow> bool" where
  "unauthorized res = (case res of Rejected _ \<Rightarrow> False | Resolved r \<Rightarrow> status r = 401)"

section \<open>Properties of the API client and of login\<close>

lemma trim_ends: "trim s = [] \<or> (\<not> is_ws (hd (trim s)) \<and> \<not> is_ws (last (trim s)))"
  unfolding trim_def
  by (metis Nil_is_rev_conv dropWhile.simps(1) dropWhile_eq_Nil_conv
      dropWhile_last hd_dropWhile hd_rev last_rev)

lemma trim_fix: "t = [] \<or> (\<not> is_ws (hd t) \<and> \<not> is_ws (last t)) \<Longrightarrow> trim t = t"
  unfolding trim_def
  by (metis Nil_is_rev_conv dropWhile_eq_self_iff hd_rev rev_swap)

lemma trim_trim: "trim (trim s) = trim s"
  using trim_ends trim_fix by blast

lemma isAuthenticated_clearToken: "\<not> isAuthenticated (clearToken st)"
  by (simp add: isAuthenticated_def clearToken_def getToken_def truthy_def)

lemma isAuthenticated_setToken: "isAuthenticated (setToken st k) \<longleftrightarrow> trim k \<noteq> []"
  by (simp add: isAuthenticated_def setToken_def getToken_def truthy_def Let_def trim_trim)

lemma setToken_trim: "setToken st (trim k) = setToken st k"
  by (simp add: setToken_def trim_trim)

lemma request_state:
  "snd (request fetch st endpoint options) =
     (if unauthorized (fetch (getApiBase @ endpoint) (fetch_options st options))
      then clearToken st else st)"
  by (simp add: request_def unauthorized_def Let_def split: fetch_result.splits sum.splits)

lemma getExemptions_state:
  "snd (getExemptions fetch st) = snd (request fetch st ''/freeze/exemptions'' no_options)"
  by (simp add: getExemptions_def split: prod.splits sum.splits)

text \<open>
  C9. When the response to the call that \<open>request\<close> makes has status 401, \<open>request\<close>
  throws the error \<open>Authentication required\<close> and the token is cleared, so that
  \<open>isAuthenticated\<close> is false afterwards. The body of the response is not consulted:
  replacing the outcome of \<open>json()\<close> by any other changes nothing.
\<close>

theorem request_unauthorized:
  assumes "fetch (getApiBase @ endpoint) (fetch_options st options) = Resolved r"
    and "status r = 401"
  shows "fst (request fetch st endpoint options) = Inl (Error ''Authentication required'') \<and>
         \<not> isAuthenticated (snd (request fetch st endpoint options)) \<and>
         request (\<lambda>url opts. case fetch url opts of
                                Rejected e \<Rightarrow> Rejected e
                              | Resolved r \<Rightarrow> Resolved (r\<lparr>json := j\<rparr>)) st endpoint options
           = request fetch st endpoint options"
  using assms by (simp add: request_def rethrow_def isAuthenticated_clearToken)

theorem request_unauthorized_witness:
  "isAuthenticated (constructor (Some ''key'')) \<and>
   (always \<lparr>status = 401, statusText = ''Unauthorized'', json = Inl NonError\<rparr>
      :: (unit, unit) fetch)
     (getApiBase @ ''/freeze/status'') (fetch_options (constructor (Some ''key'')) no_options)
     = Resolved \<lparr>status = 401, statusText = ''Unauthorized'', json = Inl NonError\<rparr> \<and>
   fst (request (always \<lparr>status = 401, statusText = ''Unauthorized'', json = Inl NonError\<rparr>
                   :: (unit, unit) fetch)
          (constructor (Some ''key'')) ''/freeze/status'' no_options)
     = Inl (Error ''Authentication required'') \<and>
   \<not> isAuthenticated
        (snd (request (always \<lparr>status = 401, statusText = ''Unauthorized'', json = Inl NonError\<rparr>
                         :: (unit, unit) fetch)
                (constructor (Some ''key'')) ''/freeze/status'' no_options))"
proof -
  let ?r = "\<lparr>status = 401, statusText = ''Unauthorized'', json = Inl NonError\<rparr>
              :: unit response"
  let ?f = "always ?r :: (unit, unit) fetch"
  have h: "?f (getApiBase @ ''/freeze/status'')
              (fetch_options (constructor (Some ''key'')) no_options) = Resolved ?r"
    by (simp add: always_def)
  have s: "status ?r = 401"
    by simp
  have a: "isAuthenticated (constructor (Some ''key''))"
    by (simp add: isAuthenticated_def constructor_def getToken_def truthy_def trim_def is_ws_def)
  note w = request_unauthorized [of ?f "''/freeze/status''" "constructor (Some ''key'')"
      no_options ?r "Inl NonError", OF h s]
  from a h w show ?thesis
    by (intro conjI) blast+
qed

text \<open>
  C8, as amended. When the validation request of \<open>login\<close> fails, \<open>login\<close> returns false.
  The client is then left as \<open>validateApiKey\<close> set it, with the trimmed key as the token,
  unless the response was an HTTP 401, in which case \<open>request\<close> has cleared the token.
  So \<open>isAuthenticated\<close> is true after the failed login exactly when the trimmed key is not
  empty and the failure was not a 401.
\<close>

theorem login_failed:
  assumes "fst (getExemptions fetch (setToken st k)) = Inl e"
  shows "fst (login fetch st k) = False \<and>
         snd (login fetch st k) =
           (if unauthorized (fetch (getApiBase @ ''/freeze/exemptions'')
                               (fetch_options (setToken st k) no_options))
            then clearToken (setToken st k) else setToken st k) \<and>
         (isAuthenticated (snd (login fetch st k)) \<longleftrightarrow>
            trim k \<noteq> [] \<and>
            \<not> unauthorized (fetch (getApiBase @ ''/freeze/exemptions'')
                              (fetch_options (setToken st k) no_options)))"
proof -
  obtain res st2 where g: "getExemptions fetch (setToken st k) = (res, st2)"
    by (cases "getExemptions fetch (setToken st k)")
  have res: "res = Inl e" using assms g by simp
  have st2: "st2 = snd (request fetch (setToken st k) ''/freeze/exemptions'' no_options)"
    using g getExemptions_state [of fetch "setToken st k"] by simp
  have l: "login fetch st k = (False, st2)"
    using g res by (simp add: login_def validateApiKey_def Let_def setToken_trim)
  show ?thesis
    unfolding l st2 request_state
    by (simp add: isAuthenticated_clearToken isAuthenticated_setToken)
qed

theorem login_failed_witness:
  "fst (getExemptions
          (always \<lparr>status = 500, statusText = ''Internal Server Error'', json = Inl NonError\<rparr>
             :: (unit, unit listing) fetch)
          (setToken (constructor None) '' secret '')) = Inl (Error ''Request failed'') \<and>
   fst (login (always \<lparr>status = 500, statusText = ''Internal Server Error'', json = Inl NonError\<rparr>
                 :: (unit, unit listing) fetch) (constructor None) '' secret '') = False \<and>
   token (snd (login (always \<lparr>status = 500, statusText = ''Internal Server Error'', json = Inl NonError\<rparr>
                 :: (unit, unit listing) fetch) (constructor None) '' secret '')) = Some ''secret'' \<and>
   isAuthenticated
     (snd (login (always \<lparr>status = 500, statusText = ''Internal Server Error'', json = Inl NonError\<rparr>
                    :: (unit, unit listing) fetch) (constructor None) '' secret ''))"
proof -
  let ?f = "always \<lparr>status = 500, statusText = ''Internal Server Error'', json = Inl NonError\<rparr>
              :: (unit, unit listing) fetch"
  have t: "trim '' secret '' = ''secret''"
    by (simp add: trim_def is_ws_def)
  have h: "fst (getExemptions ?f (setToken (constructor None) '' secret ''))
             = Inl (Error ''Request failed'')"
    by (simp add: getExemptions_def request_def always_def ok_def or_else_def rethrow_def)
  have u: "\<not> unauthorized (?f (getApiBase @ ''/freeze/exemptions'')
                 (fetch_options (setToken (constructor None) '' secret '') no_options))"
    by (simp add: unauthorized_def always_def)
  note l = login_failed [OF h]
  have ne: "trim '' secret '' \<noteq> []"
    using t by simp
  have f: "fst (login ?f (constructor None) '' secret '') = False"
    using l by blast
  have s: "snd (login ?f (constructor None) '' secret '') = setToken (constructor None) '' secret ''"
    using l u by presburger
  have k: "token (snd (login ?f (constructor None) '' secret '')) = Some ''secret''"
    unfolding s by (simp add: setToken_def Let_def t)
  have a: "isAuthenticated (snd (login ?f (constructor None) '' secret ''))"
    using l u ne by blast
  from h f k a show ?thesis by blast
qed

text \<open>
  The claim C8 as stated fails when the validation request is answered with 401: the
  login fails and \<open>isAuthenticated\<close> is false afterwards.
\<close>

theorem login_failed_counterexample:
  "fst (getExemptions
          (always \<lparr>status = 401, statusText = ''Unauthorized'', json = Inl NonError\<rparr>
             :: (unit, unit listing) fetch)
          (setToken (constructor None) ''secret'')) = Inl (Error ''Authentication required'') \<and>
   fst (login (always \<lparr>status = 401, statusText = ''Unauthorized'', json = Inl NonError\<rparr>
                 :: (unit, unit listing) fetch) (constructor None) ''secret'') = False \<and>
   \<not> isAuthenticated
        (snd (login (always \<lparr>status = 401, statusText = ''Unauthorized'', json = Inl NonError\<rparr>
                       :: (unit, unit listing) fetch) (constructor None) ''secret''))"
  by (simp add: login_def validateApiKey_def getExemptions_def request_def always_def Let_def
      rethrow_def isAuthenticated_clearToken)

section \<open>Properties of the exemption form\<close>

lemma request_ignores_flags:
  "CreateExemptionModal_request (f\<lparr>ce_error := x, ce_loading := y\<rparr>) = CreateExemptionModal_request f"
  by (simp add: CreateExemptionModal_request_def)

text \<open>
  C2, as amended. The form rejects an attempt, before any request is sent, exactly when
  the namespace, the reason or the approver is empty after trimming or the duration is
  below 1; the client is then left untouched and the error is shown. An attempt succeeds
  exactly when it passes these checks and the API call returns without throwing.
\<close>

theorem create_exemption_outcome:
  "((\<exists>e. CreateExemptionModal_request f = Inl e) \<longleftrightarrow>
      trim (ce_namespace f) = [] \<or> trim (ce_reason f) = [] \<or> trim (ce_approvedBy f) = [] \<or>
      ce_durationMinutes f < 1) \<and>
   (CreateExemptionModal_request f = Inl e \<longrightarrow>
      CreateExemptionModal_handleSubmit fetch st f =
        (False, f\<lparr>ce_error := Some (message_of e ''Failed to create exemption''),
                   ce_loading := False\<rparr>, st)) \<and>
   (fst (CreateExemptionModal_handleSubmit fetch st f) \<longleftrightarrow>
      (\<exists>req res. CreateExemptionModal_request f = Inr req \<and>
                 fst (createExemption fetch st req) = Inr res))"
proof (intro conjI)
  show "(\<exists>e. CreateExemptionModal_request f = Inl e) \<longleftrightarrow>
      trim (ce_namespace f) = [] \<or> trim (ce_reason f) = [] \<or> trim (ce_approvedBy f) = [] \<or>
      ce_durationMinutes f < 1"
    by (simp add: CreateExemptionModal_request_def)
  show "CreateExemptionModal_request f = Inl e \<longrightarrow>
      CreateExemptionModal_handleSubmit fetch st f =
        (False, f\<lparr>ce_error := Some (message_of e ''Failed to create exemption''),
                   ce_loading := False\<rparr>, st)"
    by (simp add: CreateExemptionModal_handleSubmit_def Let_def request_ignores_flags)
  show "fst (CreateExemptionModal_handleSubmit fetch st f) \<longleftrightarrow>
      (\<exists>req res. CreateExemptionModal_request f = Inr req \<and>
                 fst (createExemption fetch st req) = Inr res)"
    by (cases "CreateExemptionModal_request f")
       (auto simp: CreateExemptionModal_handleSubmit_def Let_def request_ignores_flags
             split: prod.splits sum.splits)
qed

theorem create_exemption_outcome_witness:
  "CreateExemptionModal_request
     (after_inputs [NamespaceInput ''prod'', ReasonInput '' '', ApprovedByInput ''alice''])
     = Inl (Error ''Reason is required'') \<and>
   CreateExemptionModal_handleSubmit
     (always \<lparr>status = 200, statusText = ''OK'', json = Inr \<lparr>detail = None, data = Some ()\<rparr>\<rparr>)
     (constructor (Some ''key''))
     (after_inputs [NamespaceInput ''prod'', ReasonInput '' '', ApprovedByInput ''alice''])
   = (False,
      (after_inputs [NamespaceInput ''prod'', ReasonInput '' '', ApprovedByInput ''alice''])
        \<lparr>ce_error := Some ''Reason is required'', ce_loading := False\<rparr>,
      constructor (Some ''key''))"
proof -
  let ?f = "after_inputs [NamespaceInput ''prod'', ReasonInput '' '', ApprovedByInput ''alice'']"
  have h: "CreateExemptionModal_request ?f = Inl (Error ''Reason is required'')"
    by (simp add: after_inputs_def CreateExemptionModal_init_def CreateExemptionModal_request_def
        trim_def is_ws_def)
  show ?thesis
    using h create_exemption_outcome [of ?f "Error ''Reason is required''"
        "always \<lparr>status = 200, statusText = ''OK'', json = Inr \<lparr>detail = None, data = Some ()\<rparr>\<rparr>"
        "constructor (Some ''key'')"]
    by (simp add: message_of_def)
qed

text \<open>
  The claim C2 as stated fails for an attempt with a positive duration and a non-empty
  namespace but no reason: it is rejected with \<open>Reason is required\<close>, although the
  server would accept every call.
\<close>

theorem create_exemption_outcome_counterexample:
  "0 < ce_durationMinutes (after_inputs [NamespaceInput ''prod'', ApprovedByInput ''alice'']) \<and>
   ce_namespace (after_inputs [NamespaceInput ''prod'', ApprovedByInput ''alice'']) \<noteq> [] \<and>
   CreateExemptionModal_handleSubmit
     (always \<lparr>status = 200, statusText = ''OK'', json = Inr \<lparr>detail = None, data = Some ()\<rparr>\<rparr>)
     (constructor (Some ''key''))
     (after_inputs [NamespaceInput ''prod'', ApprovedByInput ''alice''])
   = (False,
      (after_inputs [NamespaceInput ''prod'', ApprovedByInput ''alice''])
        \<lparr>ce_error := Some ''Reason is required''\<rparr>,
      constructor (Some ''key''))"
  by (simp add: after_inputs_def CreateExemptionModal_init_def CreateExemptionModal_handleSubmit_def
      CreateExemptionModal_request_def message_of_def trim_def is_ws_def)

text \<open>
  C7. In the request built by the form, the member \<open>resource_name\<close> is present exactly
  when the entered resource name is not empty after trimming, and it is then the trimmed
  name; the request reaches \<open>fetch\<close> as it was built.
\<close>

theorem resource_name_included:
  assumes "CreateExemptionModal_request f = Inr req"
  shows "(resource_name req \<noteq> None \<longleftrightarrow> trim (ce_resourceName f) \<noteq> []) \<and>
         (resource_name req \<noteq> None \<longrightarrow> resource_name req = Some (trim (ce_resourceName f))) \<and>
         body (fetch_options st (post req)) = Some req"
  using assms
  by (auto simp: CreateExemptionModal_request_def fetch_options_def post_def Let_def split: if_splits)

theorem resource_name_included_witness:
  "CreateExemptionModal_request
     (after_inputs [NamespaceInput ''prod'', ResourceNameInput '' web '', ReasonInput ''patch'',
                    ApprovedByInput ''alice''])
     = Inr \<lparr>namespace = ''prod'', resource_name = Some ''web'', duration_minutes = 60,
             reason = ''patch'', approved_by = ''alice''\<rparr> \<and>
   trim '' web '' \<noteq> [] \<and>
   body (fetch_options (constructor None)
           (post \<lparr>namespace = ''prod'', resource_name = Some ''web'', duration_minutes = 60,
                   reason = ''patch'', approved_by = ''alice''\<rparr>))
     = Some \<lparr>namespace = ''prod'', resource_name = Some ''web'', duration_minutes = 60,
              reason = ''patch'', approved_by = ''alice''\<rparr>"
proof -
  let ?f = "after_inputs [NamespaceInput ''prod'', ResourceNameInput '' web '',
                          ReasonInput ''patch'', ApprovedByInput ''alice'']"
  let ?req = "\<lparr>namespace = ''prod'', resource_name = Some ''web'', duration_minutes = 60,
               reason = ''patch'', approved_by = ''alice''\<rparr>"
  have h: "CreateExemptionModal_request ?f = Inr ?req"
    by (simp add: after_inputs_def CreateExemptionModal_init_def CreateExemptionModal_request_def
        trim_def is_ws_def)
  have r: "ce_resourceName ?f = '' web ''"
    by (simp add: after_inputs_def CreateExemptionModal_init_def)
  have t: "trim '' web '' = ''web''"
    by (simp add: trim_def is_ws_def)
  show ?thesis
    using h resource_name_included [OF h, of "constructor None"] unfolding r t by simp
qed

lemma duration_after_inputs:
  "ce_durationMinutes (foldl onChange CreateExemptionModal_init evs) = 60 \<or>
   (ce_durationMinutes (foldl onChange CreateExemptionModal_init evs) \<noteq> 0 \<and>
    (\<exists>v. DurationInput v \<in> set evs \<and>
         parseInt v = Some (ce_durationMinutes (foldl onChange CreateExemptionModal_init evs))))"
proof (induction evs rule: rev_induct)
  case Nil
  show ?case by (simp add: CreateExemptionModal_init_def)
next
  case (snoc ev evs)
  show ?case
  proof (cases ev)
    case (DurationInput v)
    then show ?thesis
      by (auto simp: onChange_durationMinutes_def split: option.splits)
  qed (use snoc in auto)
qed

text \<open>
  C10. Whatever is typed into the form, the duration is never 0: an input that
  \<open>parseInt\<close> reads as 0 or as \<open>NaN\<close> gives 60. So the check
  \<open>Duration must be at least 1 minute\<close> fails only for a negative duration, which is
  the value \<open>parseInt\<close> read from one of the inputs.
\<close>

theorem duration_never_zero:
  "ce_durationMinutes (after_inputs evs) \<noteq> 0 \<and>
   (CreateExemptionModal_request (after_inputs evs)
      = Inl (Error ''Duration must be at least 1 minute'') \<longrightarrow>
    ce_durationMinutes (after_inputs evs) < 0 \<and>
    (\<exists>v. DurationInput v \<in> set evs \<and> parseInt v = Some (ce_durationMinutes (after_inputs evs))))"
  using duration_after_inputs [of evs]
  by (auto simp: after_inputs_def CreateExemptionModal_request_def split: if_splits)

theorem duration_never_zero_witness:
  "CreateExemptionModal_request
     (after_inputs [NamespaceInput ''prod'', ReasonInput ''patch'', ApprovedByInput ''alice'',
                    DurationInput ''0'', DurationInput ''-3''])
     = Inl (Error ''Duration must be at least 1 minute'') \<and>
   ce_durationMinutes
     (after_inputs [NamespaceInput ''prod'', ReasonInput ''patch'', ApprovedByInput ''alice'',
                    DurationInput ''0'', DurationInput ''-3'']) = - 3 \<and>
   ce_durationMinutes (after_inputs [DurationInput ''0'']) = 60"
proof -
  let ?evs = "[NamespaceInput ''prod'', ReasonInput ''patch'', ApprovedByInput ''alice'',
               DurationInput ''0'', DurationInput ''-3'']"
  have p0: "parseInt ''0'' = Some 0"
    by (simp add: parseInt_def digit_of_def is_ws_def Let_def)
  have p3: "parseInt ''-3'' = Some (- 3)"
    by (simp add: parseInt_def digit_of_def is_ws_def Let_def)
  have d: "ce_durationMinutes (after_inputs ?evs) = - 3"
    by (simp add: after_inputs_def onChange_durationMinutes_def p0 p3)
  have z: "ce_durationMinutes (after_inputs [DurationInput ''0'']) = 60"
    by (simp add: after_inputs_def onChange_durationMinutes_def p0)
  have h: "CreateExemptionModal_request (after_inputs ?evs)
             = Inl (Error ''Duration must be at least 1 minute'')"
    by (simp add: after_inputs_def CreateExemptionModal_init_def CreateExemptionModal_request_def
        onChange_durationMinutes_def p0 p3 trim_def is_ws_def)
  show ?thesis
    using h d z duration_never_zero [of ?evs] by simp
qed

section \<open>Properties of the schedule form\<close>

lemma schedule_ignores_flags:
  "ApplyTemplateModal_schedule Date toISO (f\<lparr>at_error := x, at_loading := y\<rparr>)
     = ApplyTemplateModal_schedule Date toISO f"
  by (simp add: ApplyTemplateModal_schedule_def Let_def split: option.splits)

lemma handleSubmit_rejected:
  assumes "ApplyTemplateModal_schedule Date toISO f = Inl (Error msg)"
  shows "ApplyTemplateModal_handleSubmit Date toISO fetch st f
           = (False, f\<lparr>at_error := Some msg, at_loading := False\<rparr>, st)"
  using assms
  by (simp add: ApplyTemplateModal_handleSubmit_def Let_def schedule_ignores_flags message_of_def)

lemma holiday_schedule:
  "ApplyTemplateModal_schedule holiday_Date holiday_toISOString holiday_form
     = Inr \<lparr>name = ''Schedule from holiday'', start = ''2025-12-24T00:00:00.000Z'',
             end_at = ''2025-12-26T23:59:00.000Z'', cron = ''0 22 * * *'',
             namespaces = None, message = None\<rparr>"
  by (simp add: ApplyTemplateModal_schedule_def holiday_form_def holiday_Date_def
      holiday_toISOString_def iso_table_def)

text \<open>
  C3, as amended. The form accepts one shape only: a schedule it builds has a start, an
  end and a cron expression, and all four date and time fields and the cron field were
  filled in. A form that lacks the cron expression or one of the date and time fields is
  rejected with an error, and no request is sent.
\<close>

theorem accepted_schedule_shape:
  "(ApplyTemplateModal_schedule Date toISO f = Inr s \<longrightarrow>
      at_startDate f \<noteq> [] \<and> at_startTime f \<noteq> [] \<and> at_endDate f \<noteq> [] \<and> at_endTime f \<noteq> [] \<and>
      at_cron f \<noteq> [] \<and> cron s = at_cron f \<and>
      (\<exists>a b. start s = toISO a \<and> end_at s = toISO b)) \<and>
   (at_cron f = [] \<or> at_startDate f = [] \<or> at_startTime f = [] \<or> at_endDate f = [] \<or>
    at_endTime f = [] \<longrightarrow>
      (\<exists>msg. ApplyTemplateModal_schedule Date toISO f = Inl (Error msg) \<and>
             ApplyTemplateModal_handleSubmit Date toISO fetch st f
               = (False, f\<lparr>at_error := Some msg, at_loading := False\<rparr>, st)))"
proof -
  have accepted: "at_startDate f \<noteq> [] \<and> at_startTime f \<noteq> [] \<and> at_endDate f \<noteq> [] \<and>
      at_endTime f \<noteq> [] \<and> at_cron f \<noteq> [] \<and> cron s = at_cron f \<and>
      (\<exists>a b. start s = toISO a \<and> end_at s = toISO b)"
    if "ApplyTemplateModal_schedule Date toISO f = Inr s"
    using that
    by (auto simp: ApplyTemplateModal_schedule_def Let_def split: if_splits option.splits)
  have rejected: "\<exists>msg. ApplyTemplateModal_schedule Date toISO f = Inl (Error msg)"
    if "at_cron f = [] \<or> at_startDate f = [] \<or> at_startTime f = [] \<or> at_endDate f = [] \<or>
        at_endTime f = []"
    using that
    by (auto simp: ApplyTemplateModal_schedule_def Let_def split: if_splits option.splits)
  show ?thesis
    using accepted rejected handleSubmit_rejected by blast
qed

theorem accepted_schedule_shape_witness:
  "ApplyTemplateModal_schedule holiday_Date holiday_toISOString holiday_form
     = Inr \<lparr>name = ''Schedule from holiday'', start = ''2025-12-24T00:00:00.000Z'',
             end_at = ''2025-12-26T23:59:00.000Z'', cron = ''0 22 * * *'',
             namespaces = None, message = None\<rparr> \<and>
   at_cron holiday_form \<noteq> [] \<and> at_startDate holiday_form \<noteq> [] \<and>
   at_endDate holiday_form \<noteq> [] \<and>
   at_cron (holiday_form\<lparr>at_cron := []\<rparr>) = [] \<and>
   (\<exists>msg. ApplyTemplateModal_schedule holiday_Date holiday_toISOString
             (holiday_form\<lparr>at_cron := []\<rparr>) = Inl (Error msg))"
proof -
  note h = holiday_schedule
  have c: "at_cron (holiday_form\<lparr>at_cron := []\<rparr>) = []"
    by simp
  have a: "at_cron holiday_form \<noteq> [] \<and> at_startDate holiday_form \<noteq> [] \<and>
        at_endDate holiday_form \<noteq> []"
    using h accepted_schedule_shape [of holiday_Date holiday_toISOString holiday_form
        "\<lparr>name = ''Schedule from holiday'', start = ''2025-12-24T00:00:00.000Z'',
          end_at = ''2025-12-26T23:59:00.000Z'', cron = ''0 22 * * *'',
          namespaces = None, message = None\<rparr>"
        "always \<lparr>status = 200, statusText = ''OK'', json = Inl NonError\<rparr>
           :: (TemplateApplyRequest, Schedule applied) fetch"
        "constructor None"]
    by blast
  have b: "\<exists>msg. ApplyTemplateModal_schedule holiday_Date holiday_toISOString
             (holiday_form\<lparr>at_cron := []\<rparr>) = Inl (Error msg)"
    using c accepted_schedule_shape [of holiday_Date holiday_toISOString
        "holiday_form\<lparr>at_cron := []\<rparr>"
        "\<lparr>name = [], start = [], end_at = [], cron = [], namespaces = None, message = None\<rparr>"
        "always \<lparr>status = 200, statusText = ''OK'', json = Inl NonError\<rparr>
           :: (TemplateApplyRequest, Schedule applied) fetch"
        "constructor None"]
    by blast
  from h a c b show ?thesis
    by (intro conjI) blast+
qed

text \<open>
  The claim C3 as stated fails for two of the three shapes: the holiday window without a
  cron expression is rejected, and so is the cron expression without a window.
\<close>

theorem accepted_schedule_shape_counterexample:
  "ApplyTemplateModal_schedule holiday_Date holiday_toISOString (holiday_form\<lparr>at_cron := []\<rparr>)
     = Inl (Error ''Cron expression is required'') \<and>
   ApplyTemplateModal_schedule holiday_Date holiday_toISOString
     (holiday_form\<lparr>at_startDate := [], at_endDate := []\<rparr>)
     = Inl (Error ''Start date and time are required'')"
  by (simp add: ApplyTemplateModal_schedule_def holiday_form_def holiday_Date_def)

text \<open>
  C6. A schedule built by the form has its start and end from two valid instants with the
  end strictly after the start. When the end instant is less than or equal to the start
  instant, the attempt fails with an error: no schedule is built and no request is sent.
\<close>

theorem schedule_window:
  "(ApplyTemplateModal_schedule Date toISO f = Inr s \<longrightarrow>
      (\<exists>a b. Date (at_startDate f @ ''T'' @ at_startTime f @ '':00'') = Some a \<and>
             Date (at_endDate f @ ''T'' @ at_endTime f @ '':00'') = Some b \<and>
             a < b \<and> start s = toISO a \<and> end_at s = toISO b)) \<and>
   (Date (at_startDate f @ ''T'' @ at_startTime f @ '':00'') = Some a \<and>
    Date (at_endDate f @ ''T'' @ at_endTime f @ '':00'') = Some b \<and> b \<le> a \<longrightarrow>
      (\<exists>msg. ApplyTemplateModal_schedule Date toISO f = Inl (Error msg) \<and>
             ApplyTemplateModal_handleSubmit Date toISO fetch st f
               = (False, f\<lparr>at_error := Some msg, at_loading := False\<rparr>, st)))"
proof (intro conjI impI)
  assume "ApplyTemplateModal_schedule Date toISO f = Inr s"
  then show "\<exists>a b. Date (at_startDate f @ ''T'' @ at_startTime f @ '':00'') = Some a \<and>
             Date (at_endDate f @ ''T'' @ at_endTime f @ '':00'') = Some b \<and>
             a < b \<and> start s = toISO a \<and> end_at s = toISO b"
    by (auto simp: ApplyTemplateModal_schedule_def Let_def split: if_splits option.splits)
next
  assume "Date (at_startDate f @ ''T'' @ at_startTime f @ '':00'') = Some a \<and>
    Date (at_endDate f @ ''T'' @ at_endTime f @ '':00'') = Some b \<and> b \<le> a"
  then have "\<exists>msg. ApplyTemplateModal_schedule Date toISO f = Inl (Error msg)"
    by (auto simp: ApplyTemplateModal_schedule_def Let_def split: if_splits option.splits)
  then show "\<exists>msg. ApplyTemplateModal_schedule Date toISO f = Inl (Error msg) \<and>
             ApplyTemplateModal_handleSubmit Date toISO fetch st f
               = (False, f\<lparr>at_error := Some msg, at_loading := False\<rparr>, st)"
    using handleSubmit_rejected by blast
qed

theorem schedule_window_witness:
  "ApplyTemplateModal_schedule holiday_Date holiday_toISOString holiday_form
     = Inr \<lparr>name = ''Schedule from holiday'', start = ''2025-12-24T00:00:00.000Z'',
             end_at = ''2025-12-26T23:59:00.000Z'', cron = ''0 22 * * *'',
             namespaces = None, message = None\<rparr> \<and>
   (\<exists>a b. holiday_Date ''2025-12-24T00:00:00'' = Some a \<and>
          holiday_Date ''2025-12-26T23:59:00'' = Some b \<and> a < b) \<and>
   holiday_Date ''2025-12-26T23:59:00'' = Some 1766793540000 \<and>
   holiday_Date ''2025-12-24T00:00:00'' = Some 1766534400000 \<and>
   (1766534400000 :: int) \<le> 1766793540000 \<and>
   (\<exists>msg. ApplyTemplateModal_schedule holiday_Date holiday_toISOString
             (holiday_form\<lparr>at_startDate := ''2025-12-26'', at_startTime := ''23:59'',
                            at_endDate := ''2025-12-24'', at_endTime := ''00:00''\<rparr>)
           = Inl (Error msg))"
proof -
  let ?g = "holiday_form\<lparr>at_startDate := ''2025-12-26'', at_startTime := ''23:59'',
                          at_endDate := ''2025-12-24'', at_endTime := ''00:00''\<rparr>"
  let ?none = "\<lparr>name = [], start = [], end_at = [], cron = [], namespaces = None,
                 message = None\<rparr>"
  let ?f = "always \<lparr>status = 200, statusText = ''OK'', json = Inl NonError\<rparr>
              :: (TemplateApplyRequest, Schedule applied) fetch"
  note h = holiday_schedule
  have s: "at_startDate holiday_form @ ''T'' @ at_startTime holiday_form @ '':00''
             = ''2025-12-24T00:00:00''"
          "at_endDate holiday_form @ ''T'' @ at_endTime holiday_form @ '':00''
             = ''2025-12-26T23:59:00''"
    by (simp_all add: holiday_form_def)
  have g: "holiday_Date (at_startDate ?g @ ''T'' @ at_startTime ?g @ '':00'') = Some 1766793540000"
          "holiday_Date (at_endDate ?g @ ''T'' @ at_endTime ?g @ '':00'') = Some 1766534400000"
    by (simp_all add: holiday_Date_def)
  have d: "holiday_Date ''2025-12-26T23:59:00'' = Some 1766793540000"
          "holiday_Date ''2025-12-24T00:00:00'' = Some 1766534400000"
    by (simp_all add: holiday_Date_def)
  have le: "(1766534400000 :: int) \<le> 1766793540000"
    by simp
  have a: "\<exists>a b. holiday_Date ''2025-12-24T00:00:00'' = Some a \<and>
          holiday_Date ''2025-12-26T23:59:00'' = Some b \<and> a < b"
    using h schedule_window [of holiday_Date holiday_toISOString holiday_form
        "\<lparr>name = ''Schedule from holiday'', start = ''2025-12-24T00:00:00.000Z'',
          end_at = ''2025-12-26T23:59:00.000Z'', cron = ''0 22 * * *'',
          namespaces = None, message = None\<rparr>" 0 0 ?f "constructor None"]
    unfolding s by blast
  have b: "\<exists>msg. ApplyTemplateModal_schedule holiday_Date holiday_toISOString ?g
                         = Inl (Error msg)"
    using g le
      schedule_window [of holiday_Date holiday_toISOString ?g ?none
        1766793540000 1766534400000 ?f "constructor None"]
    by blast
  from h a d le b show ?thesis
    by (intro conjI)
qed

section \<open>Properties of the exemption store and of the status of an exemption\<close>

lemma match_first_Some:
  "match_first ns rn es = (Some e, es') \<Longrightarrow>
     \<exists>x \<in> set es. can_match ns rn x \<and> expires_at e = expires_at x"
  by (induction es arbitrary: es') (auto split: if_splits prod.splits)

lemma match_first_set:
  "y \<in> set (snd (match_first ns rn es)) \<Longrightarrow> \<exists>x \<in> set es. expires_at y = expires_at x"
  by (induction es) (auto split: if_splits prod.splits)

text \<open>
  C5. A match returned by the store at instant \<open>now\<close> expires strictly after \<open>now\<close>,
  and so does every exemption left in the store: an exemption with
  \<open>expires_at \<le> now\<close> yields no match. The exemptions page shows \<open>Active\<close> exactly
  for an unused exemption whose expiry is a valid date strictly after \<open>now\<close>.
\<close>

theorem expiration:
  "(matches store ns rn now = (Some e, store') \<longrightarrow>
      now < expires_at e \<and> (\<forall>y \<in> set store'. now < expires_at y)) \<and>
   (Exemptions_status Date now x = Active \<longleftrightarrow>
      \<not> used x \<and> (\<exists>t. Date (expires_at x) = Some t \<and> now < t))"
proof (intro conjI impI)
  assume m: "matches store ns rn now = (Some e, store')"
  then obtain x where "x \<in> set (filter (\<lambda>e. \<not> expires_at e \<le> now) store)"
      "expires_at e = expires_at x"
    unfolding matches_def using match_first_Some by blast
  then show "now < expires_at e" by simp
  show "\<forall>y \<in> set store'. now < expires_at y"
  proof
    fix y assume "y \<in> set store'"
    then have "y \<in> set (snd (match_first ns rn (filter (\<lambda>e. \<not> expires_at e \<le> now) store)))"
      using m by (simp add: matches_def)
    from match_first_set [OF this] show "now < expires_at y" by auto
  qed
next
  show "Exemptions_status Date now x = Active \<longleftrightarrow>
      \<not> used x \<and> (\<exists>t. Date (expires_at x) = Some t \<and> now < t)"
    by (auto simp: Exemptions_status_def split: option.splits)
qed

theorem expiration_witness:
  "matches [web_exemption] ''prod'' (Some ''web'') 3599999
     = (Some (web_exemption\<lparr>used := True\<rparr>), [web_exemption\<lparr>used := True\<rparr>]) \<and>
   3599999 < expires_at (web_exemption\<lparr>used := True\<rparr>) \<and>
   matches [web_exemption] ''prod'' (Some ''web'') 3600000 = (None, [])"
proof -
  have m: "matches [web_exemption] ''prod'' (Some ''web'') 3599999
             = (Some (web_exemption\<lparr>used := True\<rparr>), [web_exemption\<lparr>used := True\<rparr>])"
    by (simp add: matches_def web_exemption_def can_match_def)
  have n: "matches [web_exemption] ''prod'' (Some ''web'') 3600000 = (None, [])"
    by (simp add: matches_def web_exemption_def)
  have l: "3599999 < expires_at (web_exemption\<lparr>used := True\<rparr>)"
    using m expiration [of "[web_exemption]" "''prod''" "Some ''web''" 3599999
        "web_exemption\<lparr>used := True\<rparr>" "[web_exemption\<lparr>used := True\<rparr>]"]
    by blast
  from m l n show ?thesis
    by (intro conjI)
qed

lemma match_first_ids:
  "map exemption_id (snd (match_first ns rn es)) = map exemption_id es"
  by (induction es) (auto split: prod.splits)

lemma matches_distinct:
  assumes "distinct (map exemption_id store)"
  shows "distinct (map exemption_id (snd (matches store ns rn now)))"
  unfolding matches_def match_first_ids using assms by (rule distinct_map_filter)

lemma match_first_spent:
  "spent i es \<Longrightarrow>
     spent i (snd (match_first ns rn es)) \<and> \<not> returns_specific i (fst (match_first ns rn es))"
  by (induction es)
     (auto simp: spent_def returns_specific_def can_match_def split: prod.splits)

lemma matches_spent:
  assumes "spent i store"
  shows "spent i (snd (matches store ns rn now)) \<and>
         \<not> returns_specific i (fst (matches store ns rn now))"
proof -
  have "spent i (filter (\<lambda>e. \<not> expires_at e \<le> now) store)"
    using assms by (simp add: spent_def)
  then show ?thesis
    unfolding matches_def by (rule match_first_spent)
qed

lemma match_first_hit_id:
  "returns_specific i (fst (match_first ns rn es)) \<Longrightarrow> i \<in> exemption_id ` set es"
  by (induction es) (auto simp: returns_specific_def split: prod.splits if_splits)

lemma match_first_hit:
  "distinct (map exemption_id es) \<Longrightarrow> returns_specific i (fst (match_first ns rn es)) \<Longrightarrow>
     spent i (snd (match_first ns rn es))"
proof (induction es)
  case Nil
  then show ?case by (simp add: returns_specific_def)
next
  case (Cons x es)
  show ?case
  proof (cases "can_match ns rn x")
    case True
    have "\<forall>y \<in> set es. exemption_id y \<noteq> exemption_id x"
      using Cons.prems(1) by (metis distinct.simps(2) imageI list.simps(9) set_map)
    with True Cons.prems(2) show ?thesis
      by (auto simp: spent_def returns_specific_def split: if_splits)
  next
    case False
    with Cons.prems have hit: "returns_specific i (fst (match_first ns rn es))"
      by (simp split: prod.splits)
    then have "spent i (snd (match_first ns rn es))"
      using Cons by simp
    moreover have "exemption_id x \<noteq> i"
      using match_first_hit_id [OF hit] Cons.prems(1) by auto
    ultimately show ?thesis
      using False by (simp add: spent_def split: prod.splits)
  qed
qed

lemma matches_hit:
  assumes "distinct (map exemption_id store)"
    and "returns_specific i (fst (matches store ns rn now))"
  shows "spent i (snd (matches store ns rn now))"
proof -
  have "distinct (map exemption_id (filter (\<lambda>e. \<not> expires_at e \<le> now) store))"
    using assms(1) by (rule distinct_map_filter)
  then show ?thesis
    using assms(2) unfolding matches_def by (rule match_first_hit)
qed

lemma spent_no_match:
  "spent i store \<Longrightarrow> filter (returns_specific i) (match_queries store qs) = []"
proof (induction qs arbitrary: store)
  case Nil
  show ?case by simp
next
  case (Cons q qs)
  obtain ns rn now where q: "q = (ns, rn, now)" by (cases q)
  obtain r store' where m: "matches store ns rn now = (r, store')"
    by (cases "matches store ns rn now")
  from matches_spent [OF Cons.prems, of ns rn now] m
  have "spent i store'" "\<not> returns_specific i r" by simp_all
  with Cons.IH [of store'] show ?case
    by (simp add: q m)
qed

lemma at_most_once:
  "distinct (map exemption_id store) \<Longrightarrow>
     length (filter (returns_specific i) (match_queries store qs)) \<le> 1"
proof (induction qs arbitrary: store)
  case Nil
  show ?case by simp
next
  case (Cons q qs)
  obtain ns rn now where q: "q = (ns, rn, now)" by (cases q)
  obtain r store' where m: "matches store ns rn now = (r, store')"
    by (cases "matches store ns rn now")
  have d: "distinct (map exemption_id store')"
    using matches_distinct [OF Cons.prems, of ns rn now] m by simp
  show ?case
  proof (cases "returns_specific i r")
    case True
    then have "spent i store'"
      using matches_hit [OF Cons.prems, of i ns rn now] m by simp
    then show ?thesis
      using True by (simp add: q m spent_no_match)
  next
    case False
    then show ?thesis
      using Cons.IH [OF d] by (simp add: q m)
  qed
qed

lemma match_first_marked:
  "match_first ns rn es = (Some e, es') \<Longrightarrow> resource_name e \<noteq> None \<Longrightarrow> used e \<and> e \<in> set es'"
  by (induction es arbitrary: es') (auto split: if_splits prod.splits)

text \<open>
  C4. In a store whose exemptions have distinct identifiers, over any sequence of match
  queries a resource-specific exemption is returned at most once. The match that returns
  it marks it used, in the result and in the store, and no later sequence of queries
  returns it again.
\<close>

theorem single_use:
  assumes "distinct (map exemption_id store)"
  shows "length (filter (returns_specific i) (match_queries store qs)) \<le> 1 \<and>
         (matches store ns rn now = (Some e, store') \<and> resource_name e \<noteq> None \<longrightarrow>
            used e \<and> e \<in> set store' \<and>
            filter (returns_specific (exemption_id e)) (match_queries store' qs') = [])"
proof -
  have "used e \<and> e \<in> set store' \<and>
        filter (returns_specific (exemption_id e)) (match_queries store' qs') = []"
    if m: "matches store ns rn now = (Some e, store')" and r: "resource_name e \<noteq> None"
  proof -
    have "returns_specific (exemption_id e) (fst (matches store ns rn now))"
      using m r by (simp add: returns_specific_def)
    from matches_hit [OF assms this] have "spent (exemption_id e) store'"
      using m by simp
    then have "filter (returns_specific (exemption_id e)) (match_queries store' qs') = []"
      by (rule spent_no_match)
    moreover have "used e \<and> e \<in> set store'"
      using m r unfolding matches_def by (rule match_first_marked)
    ultimately show ?thesis by simp
  qed
  then show ?thesis
    using at_most_once [OF assms] by blast
qed

theorem single_use_witness:
  "distinct (map exemption_id [web_exemption]) \<and>
   match_queries [web_exemption]
     [(''prod'', Some ''web'', 600000), (''prod'', Some ''web'', 660000)]
     = [Some (web_exemption\<lparr>used := True\<rparr>), None] \<and>
   matches [web_exemption] ''prod'' (Some ''web'') 600000
     = (Some (web_exemption\<lparr>used := True\<rparr>), [web_exemption\<lparr>used := True\<rparr>]) \<and>
   length (filter (returns_specific ''e1'')
             (match_queries [web_exemption]
                [(''prod'', Some ''web'', 600000), (''prod'', Some ''web'', 660000)])) \<le> 1 \<and>
   filter (returns_specific ''e1'')
     (match_queries [web_exemption\<lparr>used := True\<rparr>] [(''prod'', Some ''web'', 660000)]) = []"
proof -
  have d: "distinct (map exemption_id [web_exemption])"
    by simp
  have m: "matches [web_exemption] ''prod'' (Some ''web'') 600000
             = (Some (web_exemption\<lparr>used := True\<rparr>), [web_exemption\<lparr>used := True\<rparr>])"
    by (simp add: matches_def web_exemption_def can_match_def)
  have m2: "matches [web_exemption\<lparr>used := True\<rparr>] ''prod'' (Some ''web'') 660000
             = (None, [web_exemption\<lparr>used := True\<rparr>])"
    by (simp add: matches_def web_exemption_def can_match_def)
  have q: "match_queries [web_exemption]
             [(''prod'', Some ''web'', 600000), (''prod'', Some ''web'', 660000)]
             = [Some (web_exemption\<lparr>used := True\<rparr>), None]"
    by (simp add: m m2)
  have r: "resource_name (web_exemption\<lparr>used := True\<rparr>) \<noteq> None"
    by (simp add: web_exemption_def)
  have i: "exemption_id (web_exemption\<lparr>used := True\<rparr>) = ''e1''"
    by (simp add: web_exemption_def)
  note w = single_use [OF d, of "''e1''"
      "[(''prod'', Some ''web'', 600000), (''prod'', Some ''web'', 660000)]"
      "''prod''" "Some ''web''" 600000 "web_exemption\<lparr>used := True\<rparr>"
      "[web_exemption\<lparr>used := True\<rparr>]" "[(''prod'', Some ''web'', 660000)]"]
  have n: "filter (returns_specific ''e1'')
          (match_queries [web_exemption\<lparr>used := True\<rparr>] [(''prod'', Some ''web'', 660000)]) = []"
    using w m r unfolding i by blast
  have l: "length (filter (returns_specific ''e1'')
             (match_queries [web_exemption]
                [(''prod'', Some ''web'', 600000), (''prod'', Some ''web'', 660000)])) \<le> 1"
    using w by blast
  from d q m l n show ?thesis
    by (intro conjI)
qed

section \<open>Properties of the policy evaluator\<close>

lemma run_steps_first:
  "run_steps before p store r = (Pass, store') \<Longrightarrow> s p store' r = (Fire d, store'') \<Longrightarrow>
     run_steps (before @ s # rest) p store r = (Fire d, store'')"
  by (induction before arbitrary: store) (auto split: prod.splits step_result.splits)

lemma annotation_fires:
  "fst (annotation_bypass p store r) = Fire d \<Longrightarrow>
     is_true (req_annotations r (bypass_annotation_key (config p))) \<and> allow d \<and>
     category d = BYPASS_ANNOTATION"
  by (auto simp: annotation_bypass_def allowed_def split: if_splits)

lemma evaluate_annotation:
  assumes "is_true (req_annotations r (bypass_annotation_key (config p)))"
  shows "allow (fst (evaluate p store r)) \<and> snd (evaluate p store r) = store \<and>
         category (fst (evaluate p store r)) \<in> {NOT_MONITORED, BYPASS_ANNOTATION}"
  using assms
  by (simp add: evaluate_def steps_def kind_filter_def operation_filter_def
      annotation_bypass_def allowed_def)

lemma filters_pass:
  assumes "req_kind r \<in> monitored_kinds (config q)" and "req_operation r \<in> {CREATE, UPDATE}"
  shows "run_steps [kind_filter, operation_filter] q st r = (Pass, st)"
  using assms by (auto simp: kind_filter_def operation_filter_def)

lemma evaluate_annotation_fires:
  assumes "req_kind r \<in> monitored_kinds (config q)" and "req_operation r \<in> {CREATE, UPDATE}"
    and "annotation_bypass q st r = (Fire d, st')"
  shows "evaluate q st r = (d, st')"
proof -
  have "run_steps ([kind_filter, operation_filter] @ annotation_bypass #
          [user_allowlist, namespace_exemption, temporary_exemption, active_freeze_check,
           default_allow]) q st r = (Fire d, st')"
    using filters_pass [OF assms(1,2)] assms(3) by (rule run_steps_first)
  then have "run_steps steps q st r = (Fire d, st')"
    by (simp only: steps_def append.simps)
  then show ?thesis
    by (simp add: evaluate_def)
qed

lemma is_true_True: "is_true (Some ''True'')"
  by code_simp

text \<open>
  C1. The steps are evaluated in order and the first that fires is final: when the steps
  before a step all pass and the step fires, its decision is the result, whatever the
  steps after it are. When the annotation bypass fires for a request, the decision is
  allow and the exemption store is not touched, under every policy with the same
  annotation key, whatever its schedules, allowlist, exempt namespaces and clock, and
  for every exemption store, available or not; for a monitored kind and a CREATE or
  UPDATE the decision is the one of the annotation step.
\<close>

theorem bypass_precedence:
  "(run_steps before p store r = (Pass, store') \<and> s p store' r = (Fire d, store'') \<longrightarrow>
      run_steps (before @ s # rest) p store r = (Fire d, store'')) \<and>
   (fst (annotation_bypass p store r) = Fire d \<and>
    bypass_annotation_key (config q) = bypass_annotation_key (config p) \<longrightarrow>
      allow (fst (evaluate q any_store r)) \<and> snd (evaluate q any_store r) = any_store \<and>
      (req_kind r \<in> monitored_kinds (config q) \<and> req_operation r \<in> {CREATE, UPDATE} \<longrightarrow>
         fst (evaluate q any_store r) = d))"
proof -
  have "allow (fst (evaluate q any_store r)) \<and> snd (evaluate q any_store r) = any_store \<and>
      (req_kind r \<in> monitored_kinds (config q) \<and> req_operation r \<in> {CREATE, UPDATE} \<longrightarrow>
         fst (evaluate q any_store r) = d)"
    if f: "fst (annotation_bypass p store r) = Fire d"
      and k: "bypass_annotation_key (config q) = bypass_annotation_key (config p)"
  proof -
    have t: "is_true (req_annotations r (bypass_annotation_key (config q)))"
      using annotation_fires [OF f] k by simp
    have "annotation_bypass q any_store r = (Fire d, any_store)"
      using f t k by (simp add: annotation_bypass_def)
    then have "fst (evaluate q any_store r) = d"
      if "req_kind r \<in> monitored_kinds (config q)" "req_operation r \<in> {CREATE, UPDATE}"
      using evaluate_annotation_fires [OF that] by simp
    then show ?thesis
      using evaluate_annotation [OF t, of any_store] by blast
  qed
  then show ?thesis
    using run_steps_first by blast
qed

theorem bypass_precedence_witness:
  "run_steps [kind_filter, operation_filter] frozen_policy None bypass_request = (Pass, None) \<and>
   annotation_bypass frozen_policy None bypass_request
     = (Fire \<lparr>allow = True, decision_reason = [], category = BYPASS_ANNOTATION\<rparr>, None) \<and>
   run_steps steps frozen_policy None bypass_request
     = (Fire \<lparr>allow = True, decision_reason = [], category = BYPASS_ANNOTATION\<rparr>, None) \<and>
   evaluate frozen_policy (Some [web_exemption]) bypass_request
     = (\<lparr>allow = True, decision_reason = [], category = BYPASS_ANNOTATION\<rparr>,
        Some [web_exemption])"
proof -
  let ?d = "\<lparr>allow = True, decision_reason = [], category = BYPASS_ANNOTATION\<rparr>"
  let ?rest = "[user_allowlist, namespace_exemption, temporary_exemption, active_freeze_check,
                default_allow]"
  have t: "is_true (req_annotations bypass_request
                      (bypass_annotation_key (config frozen_policy)))"
    by (simp add: bypass_request_def frozen_policy_def is_true_True)
  have a: "run_steps [kind_filter, operation_filter] frozen_policy None bypass_request
             = (Pass, None)"
    by (simp add: kind_filter_def operation_filter_def frozen_policy_def bypass_request_def)
  have b: "annotation_bypass frozen_policy None bypass_request = (Fire ?d, None)"
    using t by (simp add: annotation_bypass_def allowed_def bypass_request_def
        bypass_reason_key_def)
  have c: "steps = [kind_filter, operation_filter] @ annotation_bypass # ?rest"
    by (simp add: steps_def)
  have k: "req_kind bypass_request \<in> monitored_kinds (config frozen_policy) \<and>
           req_operation bypass_request \<in> {CREATE, UPDATE}"
    by (simp add: bypass_request_def frozen_policy_def)
  note w = bypass_precedence [of "[kind_filter, operation_filter]" frozen_policy None
      bypass_request None annotation_bypass ?d None ?rest frozen_policy "Some [web_exemption]"]
  have r1: "run_steps steps frozen_policy None bypass_request = (Fire ?d, None)"
    unfolding c using w a b by blast
  have f: "fst (annotation_bypass frozen_policy None bypass_request) = Fire ?d"
    using b by simp
  have e1: "fst (evaluate frozen_policy (Some [web_exemption]) bypass_request) = ?d"
    using w f k by blast
  have e2: "snd (evaluate frozen_policy (Some [web_exemption]) bypass_request)
              = Some [web_exemption]"
    using w f by blast
  have "evaluate frozen_policy (Some [web_exemption]) bypass_request
          = (?d, Some [web_exemption])"
    using e1 e2 by (simp add: prod_eq_iff)
  with a b r1 show ?thesis by blast
qed

end
